theory Spec2Isabelle
  imports Complex_Main "HOL-Library.Sublist"
begin

section \<open>Python values\<close>

text \<open>
  The connectors exchange JSON-like dictionaries (\<^verbatim>\<open>Dict[str, Any]\<close>). A value of type
  \<^verbatim>\<open>Any\<close> is a \<open>pyval\<close>; a dictionary is an association list in insertion order, as a
  Python dictionary keeps it, and its keys are strings. Floats, tuples, sets and bytes do
  not occur in the entity dictionaries of this SDK and are left out.
\<close>

datatype pyval =
    PNone
  | PBool bool
  | PInt int
  | PStr string
  | PList "pyval list"
  | PDict "(string \<times> pyval) list"

type_synonym pydict = "(string \<times> pyval) list"

text \<open>Truthiness, as \<^verbatim>\<open>if x:\<close> and \<^verbatim>\<open>x or y\<close> test it.\<close>

fun py_truthy :: "pyval \<Rightarrow> bool" where
  "py_truthy PNone = False"
| "py_truthy (PBool b) = b"
| "py_truthy (PInt i) = (i \<noteq> 0)"
| "py_truthy (PStr s) = (s \<noteq> [])"
| "py_truthy (PList xs) = (xs \<noteq> [])"
| "py_truthy (PDict d) = (d \<noteq> [])"

text \<open>\<^verbatim>\<open>k in d\<close>, \<^verbatim>\<open>d.get(k, default)\<close> and \<^verbatim>\<open>d[k] = v\<close> on a dictionary. A store to a
  key the dictionary has keeps the key's position; a new key goes last.\<close>

definition dict_contains :: "pydict \<Rightarrow> string \<Rightarrow> bool" where
  "dict_contains d k = (k \<in> set (map fst d))"

definition dict_get :: "pydict \<Rightarrow> string \<Rightarrow> pyval \<Rightarrow> pyval" where
  "dict_get d k dflt = (case map_of d k of Some v \<Rightarrow> v | None \<Rightarrow> dflt)"

primrec dict_set :: "string \<Rightarrow> pyval \<Rightarrow> pydict \<Rightarrow> pydict" where
  "dict_set k v [] = [(k, v)]"
| "dict_set k v (p # ps) = (if fst p = k then (k, v) # ps else p # dict_set k v ps)"

text \<open>\<^verbatim>\<open>{**base, **extra}\<close>: the items of \<open>extra\<close> are stored into \<open>base\<close> from left to
  right.\<close>

definition dict_merge :: "pydict \<Rightarrow> pydict \<Rightarrow> pydict" where
  "dict_merge base extra = fold (\<lambda>(k, v). dict_set k v) extra base"

section \<open>Exceptions (exceptions.py)\<close>

text \<open>
  The classes of \<^verbatim>\<open>exceptions.py\<close> and the built-in exceptions the modelled code can
  raise. The message of a \<^verbatim>\<open>PurviewConnectorError\<close> raised by the validation is kept as
  the field it names and the entity it quotes.
\<close>

datatype exc_class =
    PurviewConnectorError
  | AuthenticationError
  | IngestionError
  | ValidationError
  | ConnectionError
  | ConfigurationError
  | TransformationError
  | TypeError
  | AttributeError
  | ValueError
  | OSError

datatype py_exception = Raised exc_class string pydict

definition exc_class_of :: "py_exception \<Rightarrow> exc_class" where
  "exc_class_of e = (case e of Raised c m d \<Rightarrow> c)"

text \<open>\<^verbatim>\<open>isinstance(e, cls)\<close> for the classes above: every class of \<^verbatim>\<open>exceptions.py\<close>
  derives from \<^verbatim>\<open>PurviewConnectorError\<close> directly, the built-in ones do not.\<close>

definition sdk_classes :: "exc_class list" where
  "sdk_classes = [PurviewConnectorError, AuthenticationError, IngestionError,
     ValidationError, ConnectionError, ConfigurationError, TransformationError]"

definition is_instance :: "py_exception \<Rightarrow> exc_class \<Rightarrow> bool" where
  "is_instance e cls =
     (exc_class_of e = cls \<or> (cls = PurviewConnectorError \<and> exc_class_of e \<in> set sdk_classes))"

section \<open>The catalog client (client.py)\<close>

text \<open>
  Of the client, the connectors call \<^verbatim>\<open>bulk_create_entities\<close> only. A client is the
  function behind that method, so that a test double is a client too;
  \<open>PurviewClient_bulk_create_entities\<close> is the method of the repository's class.
  The calls a run makes are recorded in a call log: one entry, the batch, per invocation.
\<close>

record purview_client =
  bulk_create_entities :: "pydict list \<Rightarrow> py_exception + pydict"

type_synonym catalog_log = "pydict list list"

definition PurviewClient_bulk_create_entities :: "pydict list \<Rightarrow> py_exception + pydict" where
  "PurviewClient_bulk_create_entities entities =
     Inr [(''entities_created'', PInt (int (length entities))), (''status'', PStr ''success'')]"

definition PurviewClient :: purview_client where
  "PurviewClient = \<lparr>bulk_create_entities = PurviewClient_bulk_create_entities\<rparr>"

section \<open>Strings\<close>

text \<open>
  A string is the list of the bytes of its UTF-8 encoding. \<^verbatim>\<open>str.strip("/")\<close>,
  \<^verbatim>\<open>sep.join(parts)\<close>, the substring test and equality act on the bytes as they act on the
  characters. \<^verbatim>\<open>str.lower\<close> does not: it is Unicode's lower-casing, a function of the
  language's library, and the model takes it as a parameter \<open>lower\<close> wherever the code
  calls it. \<open>ascii_lower\<close> is what \<^verbatim>\<open>str.lower\<close> does to a string of ASCII characters; it
  stands for \<open>lower\<close> in the examples, whose strings are ASCII.
\<close>

definition ascii_uppercase :: string where
  "ascii_uppercase = ''ABCDEFGHIJKLMNOPQRSTUVWXYZ''"

definition ascii_lowercase :: string where
  "ascii_lowercase = ''abcdefghijklmnopqrstuvwxyz''"

definition char_lower :: "char \<Rightarrow> char" where
  "char_lower c = (case map_of (zip ascii_uppercase ascii_lowercase) c of Some l \<Rightarrow> l | None \<Rightarrow> c)"

definition ascii_lower :: "string \<Rightarrow> string" where
  "ascii_lower s = map char_lower s"

definition str_strip :: "string \<Rightarrow> string \<Rightarrow> string" where
  "str_strip chars s =
     rev (dropWhile (\<lambda>c. c \<in> set chars) (rev (dropWhile (\<lambda>c. c \<in> set chars) s)))"

fun str_join :: "string \<Rightarrow> string list \<Rightarrow> string" where
  "str_join sep [] = []"
| "str_join sep [x] = x"
| "str_join sep (x # y # ys) = x @ sep @ str_join sep (y # ys)"

text \<open>\<^verbatim>\<open>x or dflt\<close> for an optional string: None and the empty string are falsy.\<close>

definition str_or :: "string option \<Rightarrow> string \<Rightarrow> string" where
  "str_or x dflt = (case x of None \<Rightarrow> dflt | Some s \<Rightarrow> if s \<noteq> [] then s else dflt)"

section \<open>The entity model (models/entity.py)\<close>

datatype EntityStatus = ACTIVE | DELETED

definition EntityStatus_value :: "EntityStatus \<Rightarrow> string" where
  "EntityStatus_value st = (case st of ACTIVE \<Rightarrow> ''ACTIVE'' | DELETED \<Rightarrow> ''DELETED'')"

text \<open>\<^verbatim>\<open>EntityStatus(v)\<close>: the member whose value is \<open>v\<close>, a \<^verbatim>\<open>ValueError\<close> when there is
  none.\<close>

definition EntityStatus_of_value :: "pyval \<Rightarrow> py_exception + EntityStatus" where
  "EntityStatus_of_value v =
     (if v = PStr ''ACTIVE'' then Inr ACTIVE
      else if v = PStr ''DELETED'' then Inr DELETED
      else Inl (Raised ValueError ''not a valid EntityStatus'' []))"

text \<open>
  The dataclass. Python does not enforce the annotations, and \<^verbatim>\<open>from_atlas_dict\<close> stores
  whatever the dictionary holds, so the fields annotated \<^verbatim>\<open>str\<close> and \<^verbatim>\<open>Optional\<close> are
  \<open>pyval\<close>s; \<open>attributes\<close> is a dictionary and \<open>status\<close> a member of the enumeration.
\<close>

record Entity =
  type_name :: pyval
  qualified_name :: pyval
  name :: pyval
  attributes :: pydict
  guid :: pyval
  status :: EntityStatus
  created_by :: pyval
  updated_by :: pyval
  create_time :: pyval
  update_time :: pyval

definition to_atlas_dict :: "Entity \<Rightarrow> pydict" where
  "to_atlas_dict self =
     (let atlas_entity =
        [(''typeName'', type_name self),
         (''attributes'',
            PDict (dict_merge [(''qualifiedName'', qualified_name self), (''name'', name self)]
                     (attributes self))),
         (''status'', PStr (EntityStatus_value (status self)))]
      in if py_truthy (guid self) then dict_set ''guid'' (guid self) atlas_entity
         else atlas_entity)"

text \<open>
  \<^verbatim>\<open>attributes.get\<close> raises \<^verbatim>\<open>AttributeError\<close> when the value under \<^verbatim>\<open>attributes\<close> is not
  a dictionary; the arguments of the constructor are evaluated in order, so this comes
  before the \<^verbatim>\<open>ValueError\<close> of the status.
\<close>

definition from_atlas_dict :: "pydict \<Rightarrow> py_exception + Entity" where
  "from_atlas_dict data =
     (case dict_get data ''attributes'' (PDict []) of
        PDict attrs \<Rightarrow>
          (case EntityStatus_of_value (dict_get data ''status'' (PStr ''ACTIVE'')) of
             Inl e \<Rightarrow> Inl e
           | Inr st \<Rightarrow>
               Inr \<lparr>type_name = dict_get data ''typeName'' (PStr []),
                    qualified_name = dict_get attrs ''qualifiedName'' (PStr []),
                    name = dict_get attrs ''name'' (PStr []),
                    attributes = filter (\<lambda>(k, v). k \<notin> set [''qualifiedName'', ''name'']) attrs,
                    guid = dict_get data ''guid'' PNone,
                    status = st,
                    created_by = PNone, updated_by = PNone,
                    create_time = PNone, update_time = PNone\<rparr>)
      | other \<Rightarrow> Inl (Raised AttributeError ''object has no attribute get'' []))"

section \<open>The base connector (connectors/base.py)\<close>

text \<open>
  The attributes \<^verbatim>\<open>__init__\<close> sets (\<^verbatim>\<open>config\<close>, which no method reads, is left out). A
  concrete connector extends this record with its own attributes.
\<close>

record BaseConnector =
  purview_client :: purview_client
  collection_name :: string
  qualified_name_prefix :: string

text \<open>\<open>cls_name\<close> is \<^verbatim>\<open>self.__class__.__name__\<close>, and \<open>lower\<close> is \<^verbatim>\<open>str.lower\<close>.\<close>

definition generate_prefix :: "(string \<Rightarrow> string) \<Rightarrow> string \<Rightarrow> string" where
  "generate_prefix lower cls_name = lower cls_name @ ''://''"

definition BaseConnector_init ::
  "(string \<Rightarrow> string) \<Rightarrow> string \<Rightarrow> purview_client \<Rightarrow> string option \<Rightarrow> string option \<Rightarrow>
     BaseConnector" where
  "BaseConnector_init lower cls_name client collection_name_arg qualified_name_prefix_arg =
     \<lparr>purview_client = client,
      collection_name = str_or collection_name_arg ''default'',
      qualified_name_prefix =
        str_or qualified_name_prefix_arg (generate_prefix lower cls_name)\<rparr>"

text \<open>
  The two abstract methods of a connector class, over the type \<open>'self\<close> of its instances
  and the type \<open>'md\<close> of its metadata. As in the three connectors of the repository, the
  two stages do not call the catalog themselves.
\<close>

record ('self, 'md) connector_class =
  extract_metadata :: "'self \<Rightarrow> py_exception + 'md"
  transform_to_atlas :: "'self \<Rightarrow> 'md \<Rightarrow> py_exception + pydict list"

text \<open>
  \<^verbatim>\<open>"qualifiedName" not in entity.get("attributes", {})\<close> applies \<^verbatim>\<open>in\<close> to whatever the
  entity holds under \<^verbatim>\<open>attributes\<close>: key membership for a dictionary, element membership
  for a list, substring for a string, and a \<^verbatim>\<open>TypeError\<close> for a value that is not
  iterable.
\<close>

fun py_contains :: "pyval \<Rightarrow> string \<Rightarrow> py_exception + bool" where
  "py_contains (PDict d) k = Inr (dict_contains d k)"
| "py_contains (PList xs) k = Inr (PStr k \<in> set xs)"
| "py_contains (PStr s) k = Inr (sublist k s)"
| "py_contains v k = Inl (Raised TypeError ''argument is not iterable'' [])"

fun validate_entities :: "pydict list \<Rightarrow> py_exception + bool" where
  "validate_entities [] = Inr True"
| "validate_entities (entity # entities) =
     (if \<not> dict_contains entity ''typeName''
      then Inl (Raised PurviewConnectorError ''Entity missing typeName'' entity)
      else if \<not> dict_contains entity ''attributes''
      then Inl (Raised PurviewConnectorError ''Entity missing attributes'' entity)
      else (case py_contains (dict_get entity ''attributes'' (PDict [])) ''qualifiedName'' of
              Inl e \<Rightarrow> Inl e
            | Inr found \<Rightarrow>
                if \<not> found
                then Inl (Raised PurviewConnectorError ''Entity missing qualifiedName'' entity)
                else validate_entities entities))"

definition ingest_to_purview ::
  "'z BaseConnector_scheme \<Rightarrow> pydict list \<Rightarrow> catalog_log \<Rightarrow>
     (py_exception + pydict) \<times> catalog_log" where
  "ingest_to_purview self entities calls =
     (case validate_entities entities of
        Inl e \<Rightarrow> (Inl e, calls)
      | Inr ok \<Rightarrow> (bulk_create_entities (purview_client self) entities, calls @ [entities]))"

text \<open>The summary \<^verbatim>\<open>scan_and_ingest\<close> returns: a dictionary of exactly these four keys,
  \<^verbatim>\<open>status\<close>, \<^verbatim>\<open>entities_extracted\<close>, \<^verbatim>\<open>entities_created\<close> and \<^verbatim>\<open>metadata\<close>.\<close>

record 'md scan_summary =
  scan_status :: string
  entities_extracted :: int
  entities_created :: pyval
  scan_metadata :: 'md

definition scan_and_ingest ::
  "('z BaseConnector_scheme, 'md) connector_class \<Rightarrow> 'z BaseConnector_scheme \<Rightarrow>
     catalog_log \<Rightarrow> (py_exception + 'md scan_summary) \<times> catalog_log" where
  "scan_and_ingest cls self calls =
     (case extract_metadata cls self of
        Inl e \<Rightarrow> (Inl e, calls)
      | Inr md \<Rightarrow>
          (case transform_to_atlas cls self md of
             Inl e \<Rightarrow> (Inl e, calls)
           | Inr entities \<Rightarrow>
               (case ingest_to_purview self entities calls of
                  (Inl e, calls') \<Rightarrow> (Inl e, calls')
                | (Inr result, calls') \<Rightarrow>
                    (Inr \<lparr>scan_status = ''success'',
                          entities_extracted = int (length entities),
                          entities_created = dict_get result ''entities_created'' (PInt 0),
                          scan_metadata = md\<rparr>,
                     calls'))))"

text \<open>\<^verbatim>\<open>create_qualified_name(*parts)\<close>: a part is a string or None.\<close>

definition create_qualified_name :: "'z BaseConnector_scheme \<Rightarrow> string option list \<Rightarrow> string" where
  "create_qualified_name self parts =
     (let clean_parts = [str_strip ''/'' p. Some p \<leftarrow> parts, p \<noteq> []]
      in qualified_name_prefix self @ str_join ''/'' clean_parts)"

section \<open>The database connector (connectors/database.py)\<close>

text \<open>
  The metadata of a database is the nested dictionary of \<^verbatim>\<open>extract_metadata\<close>, typed: a
  key that \<^verbatim>\<open>transform_to_atlas\<close> reads with \<^verbatim>\<open>.get(key, default)\<close> is an optional field,
  a key it reads with \<^verbatim>\<open>[key]\<close> is a field.
\<close>

record column_md =
  column_name :: string
  column_type :: string
  column_nullable :: "bool option"

record table_md =
  table_name :: string
  table_columns :: "column_md list option"

record schema_md =
  schema_name :: string
  schema_tables :: "table_md list option"

record db_metadata =
  database_name :: "string option"
  schemas :: "schema_md list option"

text \<open>Of the connector's own attributes the methods read \<^verbatim>\<open>source_type\<close> only.\<close>

record DatabaseConnector = BaseConnector +
  source_type :: string

definition DatabaseConnector_extract_metadata :: "DatabaseConnector \<Rightarrow> py_exception + db_metadata" where
  "DatabaseConnector_extract_metadata self =
     Inr \<lparr>database_name = Some ''sample_database'',
          schemas = Some
            [\<lparr>schema_name = ''dbo'',
              schema_tables = Some
                [\<lparr>table_name = ''customers'',
                  table_columns = Some
                    [\<lparr>column_name = ''id'', column_type = ''int'', column_nullable = Some False\<rparr>,
                     \<lparr>column_name = ''name'', column_type = ''varchar'', column_nullable = Some False\<rparr>,
                     \<lparr>column_name = ''email'', column_type = ''varchar'', column_nullable = Some True\<rparr>]\<rparr>]\<rparr>]\<rparr>"

text \<open>\<^verbatim>\<open>x.get(key, [])\<close> and \<^verbatim>\<open>x.get(key, dflt)\<close> on an optional field.\<close>

definition get_list :: "'a list option \<Rightarrow> 'a list" where
  "get_list xs = (case xs of None \<Rightarrow> [] | Some l \<Rightarrow> l)"

definition get_or :: "'a option \<Rightarrow> 'a \<Rightarrow> 'a" where
  "get_or x dflt = (case x of None \<Rightarrow> dflt | Some v \<Rightarrow> v)"

text \<open>The three nested loops, innermost first; each appends to \<open>entities\<close>.\<close>

definition column_loop ::
  "DatabaseConnector \<Rightarrow> string \<Rightarrow> string \<Rightarrow> string \<Rightarrow> column_md list \<Rightarrow> pydict list \<Rightarrow> pydict list" where
  "column_loop self db_name sname tname cols entities =
     fold (\<lambda>col ents.
        ents @
        [[(''typeName'', PStr ''rdbms_column''),
          (''attributes'', PDict
             [(''qualifiedName'', PStr (create_qualified_name self
                  [Some db_name, Some sname, Some tname, Some (column_name col)])),
              (''name'', PStr (column_name col)),
              (''data_type'', PStr (column_type col)),
              (''isNullable'', PBool (get_or (column_nullable col) True))])]])
       cols entities"

definition table_loop ::
  "DatabaseConnector \<Rightarrow> string \<Rightarrow> string \<Rightarrow> table_md list \<Rightarrow> pydict list \<Rightarrow> pydict list" where
  "table_loop self db_name sname tbls entities =
     fold (\<lambda>tbl ents.
        column_loop self db_name sname (table_name tbl) (get_list (table_columns tbl))
          (ents @
           [[(''typeName'', PStr ''rdbms_table''),
             (''attributes'', PDict
                [(''qualifiedName'', PStr (create_qualified_name self
                     [Some db_name, Some sname, Some (table_name tbl)])),
                 (''name'', PStr (table_name tbl)),
                 (''description'', PStr (''Table in '' @ sname @ '' schema''))])]]))
       tbls entities"

definition schema_loop ::
  "DatabaseConnector \<Rightarrow> string \<Rightarrow> schema_md list \<Rightarrow> pydict list \<Rightarrow> pydict list" where
  "schema_loop self db_name schs entities =
     fold (\<lambda>sch ents.
        table_loop self db_name (schema_name sch) (get_list (schema_tables sch)) ents)
       schs entities"

definition DatabaseConnector_transform_to_atlas ::
  "DatabaseConnector \<Rightarrow> db_metadata \<Rightarrow> py_exception + pydict list" where
  "DatabaseConnector_transform_to_atlas self md =
     (let db_name = get_or (database_name md) ''unknown'';
          db_entity =
            [(''typeName'', PStr ''rdbms_db''),
             (''attributes'', PDict
                [(''qualifiedName'', PStr (create_qualified_name self [Some db_name])),
                 (''name'', PStr db_name),
                 (''description'', PStr (source_type self @ '' database''))])]
      in Inr (schema_loop self db_name (get_list (schemas md)) ([] @ [db_entity])))"

definition DatabaseConnector_class :: "(DatabaseConnector, db_metadata) connector_class" where
  "DatabaseConnector_class =
     \<lparr>extract_metadata = DatabaseConnector_extract_metadata,
      transform_to_atlas = DatabaseConnector_transform_to_atlas\<rparr>"

section \<open>The file system connector (connectors/filesystem.py)\<close>

text \<open>
  The file system is the connector's environment, taken as it stands during one scan.
  \<open>path_present\<close> says whether a path exists. \<open>stat_error\<close> is the \<^verbatim>\<open>OSError\<close>, if any, that
  a \<^verbatim>\<open>stat\<close> of the path raises and that \<^verbatim>\<open>pathlib\<close> does not take for "no such file" (a
  name that is too long, a directory that may not be searched). \<open>path_glob\<close> is what the
  generator of \<^verbatim>\<open>Path.glob\<close> yields under a root for a pattern, step by step: an item, or
  an exception that ends the iteration.
\<close>

record stat_result =
  st_size :: int
  st_mtime :: real

text \<open>
  An item of the glob with what \<^verbatim>\<open>pathlib\<close> says of it: \<open>item_path\<close> is \<^verbatim>\<open>str(item)\<close>, and
  \<open>is_file\<close>, \<open>is_dir\<close> and \<open>item_stat\<close> are the outcomes of the calls \<^verbatim>\<open>item.is_file()\<close>,
  \<^verbatim>\<open>item.is_dir()\<close> and \<^verbatim>\<open>item.stat()\<close>, each of which can raise.
\<close>

record path_item =
  item_name :: string
  item_path :: string
  item_suffix :: string
  is_file :: "py_exception + bool"
  is_dir :: "py_exception + bool"
  item_stat :: "py_exception + stat_result"

record file_system =
  path_present :: "string \<Rightarrow> bool"
  stat_error :: "string \<Rightarrow> py_exception option"
  path_glob :: "string \<Rightarrow> string \<Rightarrow> (py_exception + path_item) list"

text \<open>\<^verbatim>\<open>Path.exists()\<close>: it raises the error of the \<^verbatim>\<open>stat\<close> that is not "no such file", and
  says whether the path exists otherwise.\<close>

definition Path_exists :: "file_system \<Rightarrow> string \<Rightarrow> py_exception + bool" where
  "Path_exists env p =
     (case stat_error env p of Some e \<Rightarrow> Inl e | None \<Rightarrow> Inr (path_present env p))"

text \<open>The dictionaries \<^verbatim>\<open>extract_metadata\<close> builds for a file and for a directory, and its
  result, in which \<^verbatim>\<open>root_path\<close> is absent when the root does not exist.\<close>

record file_record =
  file_name :: string
  file_path :: string
  file_size :: int
  file_extension :: string
  file_modified :: real

record dir_record =
  dir_name :: string
  dir_path :: string

record fs_metadata =
  md_root_path :: "string option"
  files :: "file_record list"
  directories :: "dir_record list"

text \<open>Of the connector's own attributes the methods read these three; \<open>root_path\<close> is
  \<^verbatim>\<open>str(self.root_path)\<close>.\<close>

record FileSystemConnector = BaseConnector +
  root_path :: string
  file_extensions :: "string list option"
  recursive :: bool

text \<open>
  The test that skips an item: \<^verbatim>\<open>self.file_extensions and item.is_file()\<close>, which does
  not call \<^verbatim>\<open>is_file\<close> when the list is None or empty, and then
  \<^verbatim>\<open>item.suffix.lower() not in self.file_extensions\<close>.
\<close>

definition skipped_by_extension ::
  "(string \<Rightarrow> string) \<Rightarrow> string list option \<Rightarrow> path_item \<Rightarrow> py_exception + bool" where
  "skipped_by_extension lower exts item =
     (case exts of
        None \<Rightarrow> Inr False
      | Some l \<Rightarrow>
          if l = [] then Inr False
          else (case is_file item of
                  Inl e \<Rightarrow> Inl e
                | Inr f \<Rightarrow> Inr (f \<and> lower (item_suffix item) \<notin> set l)))"

text \<open>The dictionary appended for a file, whose size and time come from \<^verbatim>\<open>item.stat()\<close>,
  and the one for a directory.\<close>

definition file_record_of :: "path_item \<Rightarrow> py_exception + file_record" where
  "file_record_of item =
     (case item_stat item of
        Inl e \<Rightarrow> Inl e
      | Inr st \<Rightarrow>
          Inr \<lparr>file_name = item_name item, file_path = item_path item, file_size = st_size st,
               file_extension = item_suffix item, file_modified = st_mtime st\<rparr>)"

definition dir_record_of :: "path_item \<Rightarrow> dir_record" where
  "dir_record_of item = \<lparr>dir_name = item_name item, dir_path = item_path item\<rparr>"

text \<open>The loop over the steps of the glob, with the two lists it appends to. An
  exception of a step or of a call on an item ends the loop and is the outcome.\<close>

fun scan_items ::
  "(string \<Rightarrow> string) \<Rightarrow> string list option \<Rightarrow> (py_exception + path_item) list \<Rightarrow>
     file_record list \<Rightarrow> dir_record list \<Rightarrow>
     py_exception + file_record list \<times> dir_record list" where
  "scan_items lower exts [] fs ds = Inr (fs, ds)"
| "scan_items lower exts (Inl e # steps) fs ds = Inl e"
| "scan_items lower exts (Inr item # steps) fs ds =
     (case skipped_by_extension lower exts item of
        Inl e \<Rightarrow> Inl e
      | Inr skip \<Rightarrow>
          if skip then scan_items lower exts steps fs ds
          else (case is_file item of
                  Inl e \<Rightarrow> Inl e
                | Inr f \<Rightarrow>
                    if f then
                      (case file_record_of item of
                         Inl e \<Rightarrow> Inl e
                       | Inr r \<Rightarrow> scan_items lower exts steps (fs @ [r]) ds)
                    else (case is_dir item of
                            Inl e \<Rightarrow> Inl e
                          | Inr d \<Rightarrow>
                              if d then scan_items lower exts steps fs (ds @ [dir_record_of item])
                              else scan_items lower exts steps fs ds)))"

definition FileSystemConnector_extract_metadata ::
  "(string \<Rightarrow> string) \<Rightarrow> file_system \<Rightarrow> FileSystemConnector \<Rightarrow> py_exception + fs_metadata" where
  "FileSystemConnector_extract_metadata lower env self =
     (case Path_exists env (root_path self) of
        Inl e \<Rightarrow> Inl e
      | Inr found \<Rightarrow>
          if \<not> found then Inr \<lparr>md_root_path = None, files = [], directories = []\<rparr>
          else
            (let pattern = (if recursive self then ''**/*'' else ''*'') in
             case scan_items lower (file_extensions self)
                    (path_glob env (root_path self) pattern) [] [] of
               Inl e \<Rightarrow> Inl e
             | Inr (fs, ds) \<Rightarrow>
                 Inr \<lparr>md_root_path = Some (root_path self), files = fs, directories = ds\<rparr>))"

section \<open>Predicates of the specification\<close>

text \<open>
  What \<^verbatim>\<open>validate_entities\<close> requires of one record: the keys \<^verbatim>\<open>typeName\<close> and
  \<^verbatim>\<open>attributes\<close>, and \<^verbatim>\<open>"qualifiedName" in\<close> the value under \<^verbatim>\<open>attributes\<close>; for a
  dictionary under \<^verbatim>\<open>attributes\<close> the last says that it has the key \<^verbatim>\<open>qualifiedName\<close>.
\<close>

definition entity_passes :: "pydict \<Rightarrow> bool" where
  "entity_passes e =
     (dict_contains e ''typeName'' \<and> dict_contains e ''attributes'' \<and>
      py_contains (dict_get e ''attributes'' (PDict [])) ''qualifiedName'' = Inr True)"

definition is_mapping :: "pyval \<Rightarrow> bool" where
  "is_mapping v = (case v of PDict d \<Rightarrow> True | other \<Rightarrow> False)"

text \<open>
  The condition as the specification words it: a non-empty \<^verbatim>\<open>type_name\<close>, an
  \<^verbatim>\<open>attributes\<close> mapping that is present, and the key \<^verbatim>\<open>qualified_name\<close> inside it.
\<close>

definition spec_valid_entity :: "pydict \<Rightarrow> bool" where
  "spec_valid_entity e =
     (py_truthy (dict_get e ''typeName'' PNone) \<and>
      (case map_of e ''attributes'' of
         Some (PDict a) \<Rightarrow> dict_contains a ''qualifiedName''
       | other \<Rightarrow> False))"

text \<open>
  An entity whose attributes lack \<^verbatim>\<open>qualifiedName\<close>: the test
  \<^verbatim>\<open>"qualifiedName" in entity.get("attributes", {})\<close> does not hold. For a dictionary
  under \<^verbatim>\<open>attributes\<close>, and for an entity without \<^verbatim>\<open>attributes\<close>, this says that the
  dictionary has no key \<^verbatim>\<open>qualifiedName\<close>.
\<close>

definition lacks_qualified_name :: "pydict \<Rightarrow> bool" where
  "lacks_qualified_name e =
     (py_contains (dict_get e ''attributes'' (PDict [])) ''qualifiedName'' \<noteq> Inr True)"

text \<open>Membership in a list of extensions up to letter case, as the specification words
  the filter of the file system connector: the two are equal once both are in lower case.\<close>

definition ci_member :: "(string \<Rightarrow> string) \<Rightarrow> string \<Rightarrow> string list \<Rightarrow> bool" where
  "ci_member lower ext exts = (lower ext \<in> set (map lower exts))"

text \<open>The parts \<^verbatim>\<open>create_qualified_name\<close> keeps: those that are truthy.\<close>

definition part_truthy :: "string option \<Rightarrow> bool" where
  "part_truthy p = (case p of None \<Rightarrow> False | Some s \<Rightarrow> s \<noteq> [])"

definition truthy_parts :: "string option list \<Rightarrow> string list" where
  "truthy_parts parts = map the (filter part_truthy parts)"

section \<open>Validation\<close>

lemmas lower_defs = ascii_lower_def char_lower_def ascii_uppercase_def ascii_lowercase_def

lemma validate_entities_Cons_passes:
  "entity_passes e \<Longrightarrow> validate_entities (e # es) = validate_entities es"
  by (simp add: entity_passes_def)

lemma validate_entities_Cons_fails:
  "\<not> entity_passes e \<Longrightarrow> validate_entities (e # es) = validate_entities [e]"
  by (auto simp: entity_passes_def split: sum.splits)

lemma validate_entities_single_fails:
  "\<not> entity_passes e \<Longrightarrow> \<exists>err. validate_entities [e] = Inl err"
  by (auto simp: entity_passes_def split: sum.splits)

lemma validate_entities_append_passes:
  "\<forall>x\<in>set pre. entity_passes x \<Longrightarrow> validate_entities (pre @ es) = validate_entities es"
  by (induction pre)
    (simp_all add: validate_entities_Cons_passes del: validate_entities.simps)

lemma validate_entities_True_iff:
  "(validate_entities es = Inr True) = (\<forall>e\<in>set es. entity_passes e)"
proof (induction es)
  case Nil
  show ?case by simp
next
  case (Cons e es)
  show ?case
  proof (cases "entity_passes e")
    case True
    then show ?thesis
      using Cons.IH by (simp add: validate_entities_Cons_passes del: validate_entities.simps)
  next
    case False
    then obtain err where "validate_entities [e] = Inl err"
      using validate_entities_single_fails by blast
    then have "validate_entities (e # es) = Inl err"
      using False validate_entities_Cons_fails by metis
    then show ?thesis using False by simp
  qed
qed

lemma validate_entities_not_False: "validate_entities es \<noteq> Inr False"
  by (induction es) (auto split: sum.splits)

lemma validate_entities_True_or_raises:
  "validate_entities es = Inr True \<or> (\<exists>err. validate_entities es = Inl err)"
proof (cases "validate_entities es")
  case (Inl err)
  then show ?thesis by simp
next
  case (Inr b)
  then show ?thesis using validate_entities_not_False [of es] by (cases b) simp_all
qed

lemma validate_entities_single_class:
  "\<not> entity_passes e \<Longrightarrow> is_mapping (dict_get e ''attributes'' (PDict [])) \<Longrightarrow>
   validate_entities [e] = Inl err \<Longrightarrow> exc_class_of err = PurviewConnectorError"
  by (auto simp: entity_passes_def is_mapping_def exc_class_of_def
      split: sum.splits pyval.splits if_splits)

lemma validate_entities_fails:
  "e \<in> set es \<Longrightarrow> \<not> entity_passes e \<Longrightarrow> \<exists>err. validate_entities es = Inl err"
  using validate_entities_True_iff [of es] validate_entities_True_or_raises [of es]
  by blast

text \<open>
  C1, as the code has it. \<^verbatim>\<open>validate_entities\<close> returns True exactly when every record
  has the key \<^verbatim>\<open>typeName\<close> (whatever its value, the empty string included), the key
  \<^verbatim>\<open>attributes\<close>, and \<^verbatim>\<open>qualifiedName\<close> in the value under \<^verbatim>\<open>attributes\<close>; otherwise it
  raises, and never returns False. The first record that violates a condition decides
  the outcome, whatever follows it: the call raises what that record alone raises, a
  \<^verbatim>\<open>PurviewConnectorError\<close> (the base class of \<^verbatim>\<open>ValidationError\<close>) whenever the value
  under \<^verbatim>\<open>attributes\<close> is a dictionary or is absent.
\<close>

theorem validate_entities_all_or_nothing:
  "((validate_entities es = Inr True) = (\<forall>e\<in>set es. entity_passes e)) \<and>
   (validate_entities es = Inr True \<or> (\<exists>err. validate_entities es = Inl err)) \<and>
   (\<forall>pre e post.
      es = pre @ e # post \<and> (\<forall>x\<in>set pre. entity_passes x) \<and> \<not> entity_passes e \<longrightarrow>
      validate_entities es = validate_entities [e] \<and>
      (\<exists>err. validate_entities [e] = Inl err \<and>
         (is_mapping (dict_get e ''attributes'' (PDict [])) \<longrightarrow>
            is_instance err PurviewConnectorError)))"
proof (intro conjI allI impI)
  show "(validate_entities es = Inr True) = (\<forall>e\<in>set es. entity_passes e)"
    by (rule validate_entities_True_iff)
  show "validate_entities es = Inr True \<or> (\<exists>err. validate_entities es = Inl err)"
    by (rule validate_entities_True_or_raises)
next
  fix pre e post
  assume h: "es = pre @ e # post \<and> (\<forall>x\<in>set pre. entity_passes x) \<and> \<not> entity_passes e"
  then have "validate_entities es = validate_entities (e # post)"
    by (simp add: validate_entities_append_passes del: validate_entities.simps)
  then show "validate_entities es = validate_entities [e]"
    using h validate_entities_Cons_fails by metis
  obtain err where err: "validate_entities [e] = Inl err"
    using h validate_entities_single_fails by blast
  have "is_mapping (dict_get e ''attributes'' (PDict [])) \<longrightarrow> is_instance err PurviewConnectorError"
    using h err validate_entities_single_class [of e err] by (simp add: is_instance_def)
  then show "\<exists>err. validate_entities [e] = Inl err \<and>
      (is_mapping (dict_get e ''attributes'' (PDict [])) \<longrightarrow> is_instance err PurviewConnectorError)"
    using err by blast
qed

theorem validate_entities_all_or_nothing_witness:
  "entity_passes [(''typeName'', PStr ''DataSet''),
                  (''attributes'', PDict [(''qualifiedName'', PStr ''fs://a'')])] \<and>
   \<not> entity_passes [(''typeName'', PStr ''DataSet''), (''attributes'', PDict [])] \<and>
   is_mapping (dict_get [(''typeName'', PStr ''DataSet''), (''attributes'', PDict [])]
                 ''attributes'' (PDict [])) \<and>
   validate_entities
     [[(''typeName'', PStr ''DataSet''),
       (''attributes'', PDict [(''qualifiedName'', PStr ''fs://a'')])]] = Inr True \<and>
   validate_entities
     [[(''typeName'', PStr ''DataSet''),
       (''attributes'', PDict [(''qualifiedName'', PStr ''fs://a'')])],
      [(''typeName'', PStr ''DataSet''), (''attributes'', PDict [])],
      [(''typeName'', PStr ''DataSet''),
       (''attributes'', PDict [(''qualifiedName'', PStr ''fs://b'')])]] =
   validate_entities [[(''typeName'', PStr ''DataSet''), (''attributes'', PDict [])]] \<and>
   is_instance (Raised PurviewConnectorError ''Entity missing qualifiedName''
                  [(''typeName'', PStr ''DataSet''), (''attributes'', PDict [])])
     PurviewConnectorError"
  using validate_entities_all_or_nothing [of
      "[[(''typeName'', PStr ''DataSet''),
         (''attributes'', PDict [(''qualifiedName'', PStr ''fs://a'')])],
        [(''typeName'', PStr ''DataSet''), (''attributes'', PDict [])],
        [(''typeName'', PStr ''DataSet''),
         (''attributes'', PDict [(''qualifiedName'', PStr ''fs://b'')])]]"]
    validate_entities_all_or_nothing [of
      "[[(''typeName'', PStr ''DataSet''),
         (''attributes'', PDict [(''qualifiedName'', PStr ''fs://a'')])]]"]
  by (simp add: entity_passes_def is_mapping_def dict_contains_def dict_get_def
      is_instance_def exc_class_of_def)

text \<open>
  The claim as the specification states it fails three ways. A record whose \<^verbatim>\<open>typeName\<close>
  is the empty string passes the validation; a record without \<^verbatim>\<open>typeName\<close> raises a
  \<^verbatim>\<open>PurviewConnectorError\<close>, which is not a \<^verbatim>\<open>ValidationError\<close>; and a record whose
  \<^verbatim>\<open>attributes\<close> is the string \<^verbatim>\<open>"qualifiedName"\<close>, not a mapping, passes.
\<close>

theorem validate_entities_counterexample:
  "validate_entities
     [[(''typeName'', PStr []),
       (''attributes'', PDict [(''qualifiedName'', PStr ''fs://a'')])]] = Inr True \<and>
   \<not> spec_valid_entity
       [(''typeName'', PStr []),
        (''attributes'', PDict [(''qualifiedName'', PStr ''fs://a'')])] \<and>
   validate_entities [[(''attributes'', PDict [(''qualifiedName'', PStr ''fs://a'')])]] =
     Inl (Raised PurviewConnectorError ''Entity missing typeName''
            [(''attributes'', PDict [(''qualifiedName'', PStr ''fs://a'')])]) \<and>
   \<not> is_instance
       (Raised PurviewConnectorError ''Entity missing typeName''
          [(''attributes'', PDict [(''qualifiedName'', PStr ''fs://a'')])])
       ValidationError \<and>
   validate_entities
     [[(''typeName'', PStr ''DataSet''), (''attributes'', PStr ''qualifiedName'')]] = Inr True \<and>
   \<not> spec_valid_entity
       [(''typeName'', PStr ''DataSet''), (''attributes'', PStr ''qualifiedName'')]"
  by (simp add: spec_valid_entity_def dict_contains_def dict_get_def is_instance_def
      exc_class_of_def sdk_classes_def)

section \<open>Entities on the wire\<close>

lemma map_of_dict_set: "map_of (dict_set k v d) = (map_of d)(k \<mapsto> v)"
  by (induction d) (auto simp: fun_eq_iff)

lemma keys_dict_set: "fst ` set (dict_set k v d) = insert k (fst ` set d)"
  by (induction d) auto

lemma dict_set_new: "k \<notin> fst ` set d \<Longrightarrow> dict_set k v d = d @ [(k, v)]"
  by (induction d) auto

lemma filter_dict_set_in:
  "k \<in> S \<Longrightarrow>
   filter (\<lambda>(k', v'). k' \<notin> S) (dict_set k v d) = filter (\<lambda>(k', v'). k' \<notin> S) d"
  by (induction d) auto

text \<open>A key of the merged dictionary holds what \<open>xs\<close> gives it, else what \<open>base\<close> does.\<close>

lemma map_of_dict_merge:
  "distinct (map fst xs) \<Longrightarrow>
   map_of (dict_merge base xs) k =
     (case map_of xs k of Some v \<Rightarrow> Some v | None \<Rightarrow> map_of base k)"
proof (induction xs arbitrary: base)
  case Nil
  show ?case by (simp add: dict_merge_def)
next
  case (Cons x xs)
  obtain k' v' where x: "x = (k', v')" by (cases x)
  have d: "distinct (map fst xs)" and nk: "k' \<notin> fst ` set xs"
    using Cons.prems x by auto
  have step: "dict_merge base ((k', v') # xs) = dict_merge (dict_set k' v' base) xs"
    by (simp add: dict_merge_def)
  have none: "map_of xs k' = None"
    using nk by (simp add: map_of_eq_None_iff)
  show ?case
    using Cons.IH [OF d, of "dict_set k' v' base"] none
    by (simp add: step x map_of_dict_set split: option.splits)
qed

text \<open>Outside a set \<open>S\<close> of keys, the merge is \<open>base\<close> followed by \<open>xs\<close>, provided the keys
  of \<open>xs\<close> outside \<open>S\<close> are new.\<close>

lemma filter_dict_merge:
  "distinct (map fst xs) \<Longrightarrow>
   \<forall>k \<in> fst ` set xs. k \<notin> S \<longrightarrow> k \<notin> fst ` set base \<Longrightarrow>
   filter (\<lambda>(k, v). k \<notin> S) (dict_merge base xs) =
     filter (\<lambda>(k, v). k \<notin> S) base @ filter (\<lambda>(k, v). k \<notin> S) xs"
proof (induction xs arbitrary: base)
  case Nil
  show ?case by (simp add: dict_merge_def)
next
  case (Cons x xs)
  obtain k' v' where x: "x = (k', v')" by (cases x)
  have d: "distinct (map fst xs)" and nk: "k' \<notin> fst ` set xs"
    using Cons.prems x by auto
  have step: "dict_merge base ((k', v') # xs) = dict_merge (dict_set k' v' base) xs"
    by (simp add: dict_merge_def)
  have pre: "\<forall>k \<in> fst ` set xs. k \<notin> S \<longrightarrow> k \<notin> fst ` set (dict_set k' v' base)"
    using Cons.prems(2) nk by (auto simp: keys_dict_set x)
  have IH: "filter (\<lambda>(k, v). k \<notin> S) (dict_merge (dict_set k' v' base) xs) =
     filter (\<lambda>(k, v). k \<notin> S) (dict_set k' v' base) @ filter (\<lambda>(k, v). k \<notin> S) xs"
    using Cons.IH [OF d pre] .
  show ?case
  proof (cases "k' \<in> S")
    case True
    then show ?thesis by (simp add: step IH filter_dict_set_in x)
  next
    case False
    then have "k' \<notin> fst ` set base" using Cons.prems(2) x by auto
    then have "dict_set k' v' base = base @ [(k', v')]" by (rule dict_set_new)
    then have "filter (\<lambda>(k, v). k \<notin> S) (dict_set k' v' base) =
                 filter (\<lambda>(k, v). k \<notin> S) base @ [(k', v')]"
      using False by simp
    then show ?thesis using False by (simp add: step IH x)
  qed
qed

lemma EntityStatus_round_trip: "EntityStatus_of_value (PStr (EntityStatus_value st)) = Inr st"
  by (cases st) (simp_all add: EntityStatus_of_value_def EntityStatus_value_def)

lemma to_atlas_dict_lookups:
  "map_of (to_atlas_dict e) ''typeName'' = Some (type_name e)"
  "map_of (to_atlas_dict e) ''attributes'' =
     Some (PDict (dict_merge [(''qualifiedName'', qualified_name e), (''name'', name e)]
                    (attributes e)))"
  "map_of (to_atlas_dict e) ''status'' = Some (PStr (EntityStatus_value (status e)))"
  "map_of (to_atlas_dict e) ''guid'' = (if py_truthy (guid e) then Some (guid e) else None)"
  by (simp_all add: to_atlas_dict_def Let_def)

text \<open>
  C2, as the code has it. For an entity whose attributes are a dictionary (keys that
  are distinct), \<^verbatim>\<open>from_atlas_dict(to_atlas_dict(e))\<close> returns an entity with the
  \<^verbatim>\<open>type_name\<close> and the \<^verbatim>\<open>status\<close> of \<open>e\<close> and with the attributes of \<open>e\<close> less the keys
  \<^verbatim>\<open>qualifiedName\<close> and \<^verbatim>\<open>name\<close>. Its \<^verbatim>\<open>qualified_name\<close> is that of \<open>e\<close> when the
  attributes of \<open>e\<close> have no key \<^verbatim>\<open>qualifiedName\<close>, and the value under that key
  otherwise; its \<^verbatim>\<open>name\<close> likewise, for the key \<^verbatim>\<open>name\<close>.
\<close>

theorem atlas_round_trip:
  assumes "distinct (map fst (attributes e))"
  shows "\<exists>e'. from_atlas_dict (to_atlas_dict e) = Inr e' \<and>
           type_name e' = type_name e \<and>
           status e' = status e \<and>
           qualified_name e' = dict_get (attributes e) ''qualifiedName'' (qualified_name e) \<and>
           name e' = dict_get (attributes e) ''name'' (name e) \<and>
           attributes e' =
             filter (\<lambda>(k, v). k \<notin> set [''qualifiedName'', ''name'']) (attributes e)"
proof -
  let ?base = "[(''qualifiedName'', qualified_name e), (''name'', name e)]"
  let ?m = "dict_merge ?base (attributes e)"
  have q: "dict_get ?m ''qualifiedName'' (PStr []) =
             dict_get (attributes e) ''qualifiedName'' (qualified_name e)"
    by (simp add: dict_get_def map_of_dict_merge [OF assms] split: option.splits)
  have n: "dict_get ?m ''name'' (PStr []) = dict_get (attributes e) ''name'' (name e)"
    by (simp add: dict_get_def map_of_dict_merge [OF assms] split: option.splits)
  have f: "filter (\<lambda>(k, v). k \<notin> set [''qualifiedName'', ''name'']) ?m =
             filter (\<lambda>(k, v). k \<notin> set [''qualifiedName'', ''name'']) (attributes e)"
    using filter_dict_merge [OF assms, of "set [''qualifiedName'', ''name'']" ?base]
    by simp
  show ?thesis
    using q n f
    by (simp add: from_atlas_dict_def dict_get_def to_atlas_dict_lookups
        EntityStatus_round_trip del: set_simps)
qed

theorem atlas_round_trip_witness:
  "distinct (map fst [(''owner'', PStr ''me''), (''size'', PInt 3)]) \<and>
   from_atlas_dict (to_atlas_dict
     \<lparr>type_name = PStr ''DataSet'', qualified_name = PStr ''fs://a'', name = PStr ''a'',
      attributes = [(''owner'', PStr ''me''), (''size'', PInt 3)], guid = PNone,
      status = DELETED, created_by = PNone, updated_by = PNone,
      create_time = PNone, update_time = PNone\<rparr>) =
   Inr \<lparr>type_name = PStr ''DataSet'', qualified_name = PStr ''fs://a'', name = PStr ''a'',
        attributes = [(''owner'', PStr ''me''), (''size'', PInt 3)], guid = PNone,
        status = DELETED, created_by = PNone, updated_by = PNone,
        create_time = PNone, update_time = PNone\<rparr>"
  using atlas_round_trip [of
     "\<lparr>type_name = PStr ''DataSet'', qualified_name = PStr ''fs://a'', name = PStr ''a'',
      attributes = [(''owner'', PStr ''me''), (''size'', PInt 3)], guid = PNone,
      status = DELETED, created_by = PNone, updated_by = PNone,
      create_time = PNone, update_time = PNone\<rparr>"]
  by (simp add: from_atlas_dict_def to_atlas_dict_def dict_merge_def dict_get_def
      EntityStatus_value_def EntityStatus_of_value_def)

text \<open>
  The claim as the specification states it fails for an entity whose attributes hold
  the key \<^verbatim>\<open>qualifiedName\<close>: the attribute overrides the field on the way out, so the
  entity that comes back has the attribute's value as its \<^verbatim>\<open>qualified_name\<close>.
\<close>

theorem atlas_round_trip_counterexample:
  "from_atlas_dict (to_atlas_dict
     \<lparr>type_name = PStr ''DataSet'', qualified_name = PStr ''fs://a'', name = PStr ''a'',
      attributes = [(''qualifiedName'', PStr ''fs://other'')], guid = PNone,
      status = ACTIVE, created_by = PNone, updated_by = PNone,
      create_time = PNone, update_time = PNone\<rparr>) =
   Inr \<lparr>type_name = PStr ''DataSet'', qualified_name = PStr ''fs://other'', name = PStr ''a'',
        attributes = [], guid = PNone,
        status = ACTIVE, created_by = PNone, updated_by = PNone,
        create_time = PNone, update_time = PNone\<rparr> \<and>
   PStr ''fs://other'' \<noteq> PStr ''fs://a''"
  by (simp add: from_atlas_dict_def to_atlas_dict_def dict_merge_def dict_get_def
      EntityStatus_value_def EntityStatus_of_value_def)

text \<open>
  C10. The dictionary of \<^verbatim>\<open>to_atlas_dict\<close> has the key \<^verbatim>\<open>guid\<close> exactly when the
  entity's guid is truthy, and then holds the guid under it; so an entity whose guid is
  the empty string serializes as one whose guid is None. It always has the key
  \<^verbatim>\<open>status\<close>, holding the string value of the entity's status.
\<close>

theorem to_atlas_dict_guid_and_status:
  "dict_contains (to_atlas_dict e) ''guid'' = py_truthy (guid e) \<and>
   map_of (to_atlas_dict e) ''guid'' = (if py_truthy (guid e) then Some (guid e) else None) \<and>
   to_atlas_dict (e\<lparr>guid := PStr []\<rparr>) = to_atlas_dict (e\<lparr>guid := PNone\<rparr>) \<and>
   dict_contains (to_atlas_dict e) ''status'' \<and>
   map_of (to_atlas_dict e) ''status'' = Some (PStr (EntityStatus_value (status e)))"
  by (simp add: to_atlas_dict_def Let_def dict_contains_def)

section \<open>The pipeline\<close>

text \<open>
  C9. An empty batch passes every stage: \<^verbatim>\<open>validate_entities([])\<close> returns True, and
  \<^verbatim>\<open>ingest_to_purview([])\<close> on a connector of the repository's client returns
  \<^verbatim>\<open>{"entities_created": 0, "status": "success"}\<close>, after one bulk-create call with the
  empty batch.
\<close>

theorem empty_batch_succeeds:
  "validate_entities [] = Inr True \<and>
   ingest_to_purview (self\<lparr>purview_client := PurviewClient\<rparr>) [] calls =
     (Inr [(''entities_created'', PInt 0), (''status'', PStr ''success'')], calls @ [[]])"
  by (simp add: ingest_to_purview_def PurviewClient_def PurviewClient_bulk_create_entities_def)

text \<open>
  C4. When the batch that \<^verbatim>\<open>transform_to_atlas\<close> returns holds an entity whose attributes
  lack \<^verbatim>\<open>qualifiedName\<close>, \<^verbatim>\<open>scan_and_ingest\<close> raises and leaves the log of bulk-create
  calls as it found it: the run invokes \<^verbatim>\<open>bulk_create_entities\<close> zero times.
\<close>

theorem invalid_batch_makes_no_catalog_call:
  assumes "extract_metadata cls self = Inr md"
    and "transform_to_atlas cls self md = Inr entities"
    and "e \<in> set entities" and "lacks_qualified_name e"
  shows "\<exists>err. scan_and_ingest cls self calls = (Inl err, calls)"
proof -
  have "\<not> entity_passes e"
    using assms(4) by (simp add: lacks_qualified_name_def entity_passes_def)
  then obtain err where "validate_entities entities = Inl err"
    using validate_entities_fails [OF assms(3)] by blast
  then show ?thesis
    using assms(1,2) by (simp add: scan_and_ingest_def ingest_to_purview_def)
qed

theorem invalid_batch_makes_no_catalog_call_witness:
  "lacks_qualified_name [(''typeName'', PStr ''DataSet''), (''attributes'', PDict [(''name'', PStr ''b'')])] \<and>
   scan_and_ingest
     \<lparr>extract_metadata = (\<lambda>self :: BaseConnector. Inr (7 :: nat)),
      transform_to_atlas = (\<lambda>self md. Inr
        [[(''typeName'', PStr ''DataSet''), (''attributes'', PDict [(''qualifiedName'', PStr ''t://a'')])],
         [(''typeName'', PStr ''DataSet''), (''attributes'', PDict [(''name'', PStr ''b'')])]])\<rparr>
     \<lparr>purview_client = PurviewClient, collection_name = ''default'',
      qualified_name_prefix = ''t://''\<rparr> [] =
   (Inl (Raised PurviewConnectorError ''Entity missing qualifiedName''
           [(''typeName'', PStr ''DataSet''), (''attributes'', PDict [(''name'', PStr ''b'')])]),
    [])"
  using invalid_batch_makes_no_catalog_call [of
     "\<lparr>extract_metadata = (\<lambda>self :: BaseConnector. Inr (7 :: nat)),
      transform_to_atlas = (\<lambda>self md. Inr
        [[(''typeName'', PStr ''DataSet''), (''attributes'', PDict [(''qualifiedName'', PStr ''t://a'')])],
         [(''typeName'', PStr ''DataSet''), (''attributes'', PDict [(''name'', PStr ''b'')])]])\<rparr>"
     "\<lparr>purview_client = PurviewClient, collection_name = ''default'',
      qualified_name_prefix = ''t://''\<rparr>"
     7
     "[[(''typeName'', PStr ''DataSet''), (''attributes'', PDict [(''qualifiedName'', PStr ''t://a'')])],
       [(''typeName'', PStr ''DataSet''), (''attributes'', PDict [(''name'', PStr ''b'')])]]"
     "[(''typeName'', PStr ''DataSet''), (''attributes'', PDict [(''name'', PStr ''b'')])]"
     "[]"]
  by (simp add: lacks_qualified_name_def scan_and_ingest_def ingest_to_purview_def
      dict_contains_def dict_get_def)

text \<open>
  C6. When no stage raises, \<^verbatim>\<open>scan_and_ingest\<close> returns the summary of status
  \<^verbatim>\<open>"success"\<close>, the number of entities of the batch, the \<^verbatim>\<open>entities_created\<close> of the
  client's bulk-create result (0 when the result has no such key) and the metadata as
  \<^verbatim>\<open>extract_metadata\<close> returned it. An exception of the extraction, of the
  transformation, of the validation or of the client's bulk-create is the outcome of the
  call.
\<close>

theorem scan_and_ingest_summary:
  "(extract_metadata cls self = Inr md \<and> transform_to_atlas cls self md = Inr entities \<and>
      validate_entities entities = Inr ok \<and>
      bulk_create_entities (purview_client self) entities = Inr result \<longrightarrow>
    scan_and_ingest cls self calls =
      (Inr \<lparr>scan_status = ''success'', entities_extracted = int (length entities),
            entities_created = dict_get result ''entities_created'' (PInt 0),
            scan_metadata = md\<rparr>, calls @ [entities])) \<and>
   (extract_metadata cls self = Inl err \<longrightarrow> scan_and_ingest cls self calls = (Inl err, calls)) \<and>
   (extract_metadata cls self = Inr md \<and> transform_to_atlas cls self md = Inl err \<longrightarrow>
      scan_and_ingest cls self calls = (Inl err, calls)) \<and>
   (extract_metadata cls self = Inr md \<and> transform_to_atlas cls self md = Inr entities \<and>
      validate_entities entities = Inl err \<longrightarrow>
      scan_and_ingest cls self calls = (Inl err, calls)) \<and>
   (extract_metadata cls self = Inr md \<and> transform_to_atlas cls self md = Inr entities \<and>
      validate_entities entities = Inr ok \<and>
      bulk_create_entities (purview_client self) entities = Inl err \<longrightarrow>
      scan_and_ingest cls self calls = (Inl err, calls @ [entities]))"
  by (simp add: scan_and_ingest_def ingest_to_purview_def)

theorem scan_and_ingest_summary_witness:
  "scan_and_ingest
     \<lparr>extract_metadata = (\<lambda>self :: BaseConnector. Inr (7 :: nat)),
      transform_to_atlas = (\<lambda>self md. Inr
        [[(''typeName'', PStr ''DataSet''), (''attributes'', PDict [(''qualifiedName'', PStr ''t://a'')])]])\<rparr>
     \<lparr>purview_client = PurviewClient, collection_name = ''default'',
      qualified_name_prefix = ''t://''\<rparr> [] =
   (Inr \<lparr>scan_status = ''success'', entities_extracted = 1, entities_created = PInt 1,
         scan_metadata = 7\<rparr>,
    [[[(''typeName'', PStr ''DataSet''), (''attributes'', PDict [(''qualifiedName'', PStr ''t://a'')])]]]) \<and>
   scan_and_ingest
     \<lparr>extract_metadata = (\<lambda>self :: BaseConnector. Inl (Raised OSError ''unreachable'' [])),
      transform_to_atlas = (\<lambda>self (md :: nat). Inr [])\<rparr>
     \<lparr>purview_client = PurviewClient, collection_name = ''default'',
      qualified_name_prefix = ''t://''\<rparr> [] =
   (Inl (Raised OSError ''unreachable'' []), []) \<and>
   scan_and_ingest
     \<lparr>extract_metadata = (\<lambda>self :: BaseConnector. Inr (7 :: nat)),
      transform_to_atlas = (\<lambda>self md. Inr
        [[(''typeName'', PStr ''DataSet''), (''attributes'', PDict [(''qualifiedName'', PStr ''t://a'')])]])\<rparr>
     \<lparr>purview_client =
        \<lparr>bulk_create_entities = (\<lambda>entities. Inl (Raised IngestionError ''rejected'' []))\<rparr>,
      collection_name = ''default'', qualified_name_prefix = ''t://''\<rparr> [] =
   (Inl (Raised IngestionError ''rejected'' []),
    [[[(''typeName'', PStr ''DataSet''), (''attributes'', PDict [(''qualifiedName'', PStr ''t://a'')])]]])"
  using scan_and_ingest_summary [of
     "\<lparr>extract_metadata = (\<lambda>self :: BaseConnector. Inr (7 :: nat)),
      transform_to_atlas = (\<lambda>self md. Inr
        [[(''typeName'', PStr ''DataSet''), (''attributes'', PDict [(''qualifiedName'', PStr ''t://a'')])]])\<rparr>"
     "\<lparr>purview_client = PurviewClient, collection_name = ''default'',
      qualified_name_prefix = ''t://''\<rparr>"
     7
     "[[(''typeName'', PStr ''DataSet''), (''attributes'', PDict [(''qualifiedName'', PStr ''t://a'')])]]"
     True
     "[(''entities_created'', PInt 1), (''status'', PStr ''success'')]"
     "[]"]
    scan_and_ingest_summary [of
     "\<lparr>extract_metadata = (\<lambda>self :: BaseConnector. Inl (Raised OSError ''unreachable'' [])),
      transform_to_atlas = (\<lambda>self (md :: nat). Inr [])\<rparr>"
     "\<lparr>purview_client = PurviewClient, collection_name = ''default'',
      qualified_name_prefix = ''t://''\<rparr>"
     7 "[]" True "[]" "[]" "Raised OSError ''unreachable'' []"]
  by (simp add: scan_and_ingest_def ingest_to_purview_def PurviewClient_def
      PurviewClient_bulk_create_entities_def dict_contains_def dict_get_def)

section \<open>Qualified names\<close>

lemma dropWhile_head: "dropWhile P xs = y # ys \<Longrightarrow> \<not> P y"
  by (metis hd_dropWhile list.sel(1) list.distinct(1))

lemma str_strip_split:
  "dropWhile (\<lambda>c. c \<in> set cs) p =
     str_strip cs p @
     rev (takeWhile (\<lambda>c. c \<in> set cs) (rev (dropWhile (\<lambda>c. c \<in> set cs) p)))"
proof -
  let ?P = "\<lambda>c. c \<in> set cs"
  let ?q = "dropWhile ?P p"
  have "rev ?q = takeWhile ?P (rev ?q) @ dropWhile ?P (rev ?q)" by simp
  then have "?q = rev (dropWhile ?P (rev ?q)) @ rev (takeWhile ?P (rev ?q))"
    by (metis rev_append rev_rev_ident)
  then show ?thesis by (simp add: str_strip_def)
qed

text \<open>\<^verbatim>\<open>p.strip("/")\<close> is \<open>p\<close> less a run of slashes at each end.\<close>

lemma str_strip_shape:
  "\<exists>m n. p = replicate m CHR ''/'' @ str_strip ''/'' p @ replicate n CHR ''/''"
proof -
  let ?P = "\<lambda>c. c \<in> set ''/''"
  let ?q = "dropWhile ?P p"
  have a: "takeWhile ?P p = replicate (length (takeWhile ?P p)) CHR ''/''"
    by (rule replicate_eqI) (auto dest: set_takeWhileD)
  have b: "takeWhile ?P (rev ?q) = replicate (length (takeWhile ?P (rev ?q))) CHR ''/''"
    by (rule replicate_eqI) (auto dest: set_takeWhileD)
  have "p = takeWhile ?P p @ ?q" by simp
  then have "p = takeWhile ?P p @ str_strip ''/'' p @ rev (takeWhile ?P (rev ?q))"
    using str_strip_split [of "''/''" p] by metis
  then show ?thesis using a b by (metis rev_replicate)
qed

text \<open>What is left neither starts nor ends with a slash.\<close>

lemma str_strip_ends:
  "\<not> prefix ''/'' (str_strip ''/'' p) \<and> \<not> suffix ''/'' (str_strip ''/'' p)"
proof
  let ?P = "\<lambda>c. c \<in> set ''/''"
  let ?q = "dropWhile ?P p"
  show "\<not> prefix ''/'' (str_strip ''/'' p)"
  proof
    assume "prefix ''/'' (str_strip ''/'' p)"
    then obtain t where "str_strip ''/'' p = CHR ''/'' # t"
      by (auto simp: prefix_def)
    then have "?q = CHR ''/'' # (t @ rev (takeWhile ?P (rev ?q)))"
      using str_strip_split [of "''/''" p] by simp
    then have "\<not> ?P CHR ''/''" by (rule dropWhile_head)
    then show False by simp
  qed
  show "\<not> suffix ''/'' (str_strip ''/'' p)"
  proof
    assume "suffix ''/'' (str_strip ''/'' p)"
    then have "prefix ''/'' (dropWhile ?P (rev ?q))"
      by (simp add: suffix_to_prefix str_strip_def)
    then obtain t where "dropWhile ?P (rev ?q) = CHR ''/'' # t"
      by (auto simp: prefix_def)
    then have "\<not> ?P CHR ''/''" by (rule dropWhile_head)
    then show False by simp
  qed
qed

lemma clean_parts_eq:
  "[str_strip ''/'' p. Some p \<leftarrow> parts, p \<noteq> []] = map (str_strip ''/'') (truthy_parts parts)"
  by (induction parts) (auto simp: truthy_parts_def part_truthy_def split: option.splits)

lemma truthy_parts_skip:
  "truthy_parts (xs @ None # ys) = truthy_parts (xs @ ys)"
  "truthy_parts (xs @ Some [] # ys) = truthy_parts (xs @ ys)"
  by (simp_all add: truthy_parts_def part_truthy_def)

lemma create_qualified_name_eq:
  "create_qualified_name self parts =
     qualified_name_prefix self @ str_join ''/'' (map (str_strip ''/'') (truthy_parts parts))"
  by (simp add: create_qualified_name_def clean_parts_eq)

text \<open>
  C7. \<^verbatim>\<open>create_qualified_name\<close> returns the connector's prefix followed by the parts that
  are truthy, each stripped of the slashes at its two ends, joined by slashes. A part
  that is None or the empty string changes nothing, wherever it stands, so
  \<^verbatim>\<open>("a", "", None, "b")\<close> gives what \<^verbatim>\<open>("a", "b")\<close> gives. A stripped part is the part less
  a run of slashes at each end, and neither starts nor ends with a slash. The prefix of
  a connector built without one is the class name put in lower case by \<^verbatim>\<open>str.lower\<close>,
  followed by \<^verbatim>\<open>://\<close>.
\<close>

theorem create_qualified_name_joins_truthy_parts:
  "create_qualified_name self parts =
     qualified_name_prefix self @ str_join ''/'' (map (str_strip ''/'') (truthy_parts parts)) \<and>
   create_qualified_name self (xs @ None # ys) = create_qualified_name self (xs @ ys) \<and>
   create_qualified_name self (xs @ Some [] # ys) = create_qualified_name self (xs @ ys) \<and>
   create_qualified_name self [Some ''a'', Some [], None, Some ''b''] =
     create_qualified_name self [Some ''a'', Some ''b''] \<and>
   create_qualified_name self [Some ''a'', Some ''b''] = qualified_name_prefix self @ ''a/b'' \<and>
   (\<exists>m n. p = replicate m CHR ''/'' @ str_strip ''/'' p @ replicate n CHR ''/'') \<and>
   \<not> prefix ''/'' (str_strip ''/'' p) \<and> \<not> suffix ''/'' (str_strip ''/'' p) \<and>
   qualified_name_prefix (BaseConnector_init lower cls_name client arg None) =
     lower cls_name @ ''://''"
proof (intro conjI)
  show "create_qualified_name self [Some ''a'', Some [], None, Some ''b''] =
     create_qualified_name self [Some ''a'', Some ''b'']"
    by (simp add: create_qualified_name_def)
  show "create_qualified_name self [Some ''a'', Some ''b''] = qualified_name_prefix self @ ''a/b''"
    by (simp add: create_qualified_name_def str_strip_def)
qed (simp_all add: create_qualified_name_eq truthy_parts_skip str_strip_shape str_strip_ends
      BaseConnector_init_def str_or_def generate_prefix_def)

section \<open>The database scenario\<close>

lemmas db_defs = DatabaseConnector_transform_to_atlas_def schema_loop_def table_loop_def
  column_loop_def get_list_def get_or_def create_qualified_name_def str_strip_def Let_def

text \<open>
  C5. For the metadata that \<^verbatim>\<open>extract_metadata\<close> returns (one schema \<^verbatim>\<open>dbo\<close> with one table
  \<^verbatim>\<open>customers\<close> of the columns \<^verbatim>\<open>id\<close>, \<^verbatim>\<open>name\<close> and \<^verbatim>\<open>email\<close>), \<^verbatim>\<open>transform_to_atlas\<close> returns
  exactly five entities: the database, the table, and the columns \<^verbatim>\<open>id\<close>, \<^verbatim>\<open>name\<close>,
  \<^verbatim>\<open>email\<close>, in this order; and \<^verbatim>\<open>scan_and_ingest\<close> on the repository's client returns a
  summary whose \<^verbatim>\<open>entities_extracted\<close> is 5.
\<close>

theorem database_scenario_five_entities:
  "(case DatabaseConnector_extract_metadata self of
      Inl err \<Rightarrow> False
    | Inr md \<Rightarrow>
        DatabaseConnector_transform_to_atlas self md =
          Inr [[(''typeName'', PStr ''rdbms_db''),
                (''attributes'', PDict
                   [(''qualifiedName'', PStr (qualified_name_prefix self @ ''sample_database'')),
                    (''name'', PStr ''sample_database''),
                    (''description'', PStr (source_type self @ '' database''))])],
               [(''typeName'', PStr ''rdbms_table''),
                (''attributes'', PDict
                   [(''qualifiedName'',
                       PStr (qualified_name_prefix self @ ''sample_database/dbo/customers'')),
                    (''name'', PStr ''customers''),
                    (''description'', PStr ''Table in dbo schema'')])],
               [(''typeName'', PStr ''rdbms_column''),
                (''attributes'', PDict
                   [(''qualifiedName'',
                       PStr (qualified_name_prefix self @ ''sample_database/dbo/customers/id'')),
                    (''name'', PStr ''id''),
                    (''data_type'', PStr ''int''),
                    (''isNullable'', PBool False)])],
               [(''typeName'', PStr ''rdbms_column''),
                (''attributes'', PDict
                   [(''qualifiedName'',
                       PStr (qualified_name_prefix self @ ''sample_database/dbo/customers/name'')),
                    (''name'', PStr ''name''),
                    (''data_type'', PStr ''varchar''),
                    (''isNullable'', PBool False)])],
               [(''typeName'', PStr ''rdbms_column''),
                (''attributes'', PDict
                   [(''qualifiedName'',
                       PStr (qualified_name_prefix self @ ''sample_database/dbo/customers/email'')),
                    (''name'', PStr ''email''),
                    (''data_type'', PStr ''varchar''),
                    (''isNullable'', PBool True)])]]) \<and>
   (\<exists>summary calls'.
      scan_and_ingest DatabaseConnector_class (self\<lparr>purview_client := PurviewClient\<rparr>) calls =
        (Inr summary, calls') \<and>
      entities_extracted summary = 5 \<and> entities_created summary = PInt 5 \<and>
      scan_status summary = ''success'')"
proof
  show "case DatabaseConnector_extract_metadata self of
      Inl err \<Rightarrow> False
    | Inr md \<Rightarrow>
        DatabaseConnector_transform_to_atlas self md =
          Inr [[(''typeName'', PStr ''rdbms_db''),
                (''attributes'', PDict
                   [(''qualifiedName'', PStr (qualified_name_prefix self @ ''sample_database'')),
                    (''name'', PStr ''sample_database''),
                    (''description'', PStr (source_type self @ '' database''))])],
               [(''typeName'', PStr ''rdbms_table''),
                (''attributes'', PDict
                   [(''qualifiedName'',
                       PStr (qualified_name_prefix self @ ''sample_database/dbo/customers'')),
                    (''name'', PStr ''customers''),
                    (''description'', PStr ''Table in dbo schema'')])],
               [(''typeName'', PStr ''rdbms_column''),
                (''attributes'', PDict
                   [(''qualifiedName'',
                       PStr (qualified_name_prefix self @ ''sample_database/dbo/customers/id'')),
                    (''name'', PStr ''id''),
                    (''data_type'', PStr ''int''),
                    (''isNullable'', PBool False)])],
               [(''typeName'', PStr ''rdbms_column''),
                (''attributes'', PDict
                   [(''qualifiedName'',
                       PStr (qualified_name_prefix self @ ''sample_database/dbo/customers/name'')),
                    (''name'', PStr ''name''),
                    (''data_type'', PStr ''varchar''),
                    (''isNullable'', PBool False)])],
               [(''typeName'', PStr ''rdbms_column''),
                (''attributes'', PDict
                   [(''qualifiedName'',
                       PStr (qualified_name_prefix self @ ''sample_database/dbo/customers/email'')),
                    (''name'', PStr ''email''),
                    (''data_type'', PStr ''varchar''),
                    (''isNullable'', PBool True)])]]"
    by (simp add: DatabaseConnector_extract_metadata_def db_defs)
  show "\<exists>summary calls'.
      scan_and_ingest DatabaseConnector_class (self\<lparr>purview_client := PurviewClient\<rparr>) calls =
        (Inr summary, calls') \<and>
      entities_extracted summary = 5 \<and> entities_created summary = PInt 5 \<and>
      scan_status summary = ''success''"
    by (simp add: scan_and_ingest_def ingest_to_purview_def DatabaseConnector_class_def
        DatabaseConnector_extract_metadata_def db_defs dict_contains_def dict_get_def
        PurviewClient_def PurviewClient_bulk_create_entities_def)
qed

section \<open>Scanning a file system\<close>

text \<open>
  C3. The extension filter is not a match up to letter case. The code puts the file's
  extension in lower case and looks it up in the allow-list as it is configured, so an
  entry with a capital letter matches no file. With the allow-list \<^verbatim>\<open>[".CSV"]\<close> and a root
  that holds the one file \<^verbatim>\<open>a.CSV\<close>, \<^verbatim>\<open>extract_metadata\<close> returns no file, although the
  file's extension is the configured entry itself and so a member of the list up to
  case. Of \<open>lower\<close> this takes only that it maps \<^verbatim>\<open>.CSV\<close> to \<^verbatim>\<open>.csv\<close>, as \<^verbatim>\<open>str.lower\<close> does.
\<close>

theorem extension_filter_drops_configured_entry:
  assumes "lower ''.CSV'' = ''.csv''"
  shows "FileSystemConnector_extract_metadata lower
     \<lparr>path_present = (\<lambda>p. p = ''/data''), stat_error = (\<lambda>p. None),
      path_glob = (\<lambda>root pattern.
        [Inr \<lparr>item_name = ''a.CSV'', item_path = ''/data/a.CSV'', item_suffix = ''.CSV'',
              is_file = Inr True, is_dir = Inr False,
              item_stat = Inr \<lparr>st_size = 100, st_mtime = 0\<rparr>\<rparr>])\<rparr>
     \<lparr>purview_client = PurviewClient, collection_name = ''default'',
      qualified_name_prefix = ''filesystemconnector://'',
      root_path = ''/data'', file_extensions = Some [''.CSV''], recursive = True\<rparr> =
   Inr \<lparr>md_root_path = Some ''/data'', files = [], directories = []\<rparr> \<and>
   ci_member lower ''.CSV'' [''.CSV'']"
  using assms
  by (simp add: FileSystemConnector_extract_metadata_def Path_exists_def
      skipped_by_extension_def ci_member_def)

theorem extension_filter_drops_configured_entry_witness:
  "ascii_lower ''.CSV'' = ''.csv'' \<and>
   FileSystemConnector_extract_metadata ascii_lower
     \<lparr>path_present = (\<lambda>p. p = ''/data''), stat_error = (\<lambda>p. None),
      path_glob = (\<lambda>root pattern.
        [Inr \<lparr>item_name = ''a.CSV'', item_path = ''/data/a.CSV'', item_suffix = ''.CSV'',
              is_file = Inr True, is_dir = Inr False,
              item_stat = Inr \<lparr>st_size = 100, st_mtime = 0\<rparr>\<rparr>])\<rparr>
     \<lparr>purview_client = PurviewClient, collection_name = ''default'',
      qualified_name_prefix = ''filesystemconnector://'',
      root_path = ''/data'', file_extensions = Some [''.CSV''], recursive = True\<rparr> =
   Inr \<lparr>md_root_path = Some ''/data'', files = [], directories = []\<rparr>"
proof -
  have h: "ascii_lower ''.CSV'' = ''.csv''"
    by (simp add: lower_defs)
  show ?thesis
    using h extension_filter_drops_configured_entry [of ascii_lower, OF h] by simp
qed

text \<open>
  C8, as the code has it. When \<^verbatim>\<open>Path.exists()\<close> returns False for the root, that is, the
  root does not exist and the \<^verbatim>\<open>stat\<close> behind \<^verbatim>\<open>exists\<close> raises no other error,
  \<^verbatim>\<open>extract_metadata\<close> returns a result whose files and directories are empty and raises
  nothing, whatever a glob would do.
\<close>

theorem missing_root_is_empty:
  "\<not> path_present env (root_path self) \<Longrightarrow> stat_error env (root_path self) = None \<Longrightarrow>
   FileSystemConnector_extract_metadata lower env self =
     Inr \<lparr>md_root_path = None, files = [], directories = []\<rparr>"
  by (simp add: FileSystemConnector_extract_metadata_def Path_exists_def)

theorem missing_root_is_empty_witness:
  "\<not> path_present
       \<lparr>path_present = (\<lambda>p. False), stat_error = (\<lambda>p. None),
        path_glob = (\<lambda>root pattern. [Inl (Raised OSError ''no such directory'' [])])\<rparr>
       ''/nowhere'' \<and>
   stat_error
       \<lparr>path_present = (\<lambda>p. False), stat_error = (\<lambda>p. None),
        path_glob = (\<lambda>root pattern. [Inl (Raised OSError ''no such directory'' [])])\<rparr>
       ''/nowhere'' = None \<and>
   FileSystemConnector_extract_metadata ascii_lower
     \<lparr>path_present = (\<lambda>p. False), stat_error = (\<lambda>p. None),
      path_glob = (\<lambda>root pattern. [Inl (Raised OSError ''no such directory'' [])])\<rparr>
     \<lparr>purview_client = PurviewClient, collection_name = ''default'',
      qualified_name_prefix = ''filesystemconnector://'',
      root_path = ''/nowhere'', file_extensions = None, recursive = True\<rparr> =
   Inr \<lparr>md_root_path = None, files = [], directories = []\<rparr>"
  using missing_root_is_empty [of
     "\<lparr>path_present = (\<lambda>p. False), stat_error = (\<lambda>p. None),
       path_glob = (\<lambda>root pattern. [Inl (Raised OSError ''no such directory'' [])])\<rparr>"
     "\<lparr>purview_client = PurviewClient, collection_name = ''default'',
      qualified_name_prefix = ''filesystemconnector://'',
      root_path = ''/nowhere'', file_extensions = None, recursive = True\<rparr>"
     ascii_lower]
  by simp

text \<open>
  The claim as the specification states it fails for a root that does not exist and
  whose name is too long for the file system: \<^verbatim>\<open>Path.exists()\<close> raises the \<^verbatim>\<open>OSError\<close> of
  the \<^verbatim>\<open>stat\<close>, and \<^verbatim>\<open>extract_metadata\<close> raises it in turn.
\<close>

theorem missing_root_counterexample:
  "\<not> path_present
       \<lparr>path_present = (\<lambda>p. False),
        stat_error = (\<lambda>p. if 255 < length p
                            then Some (Raised OSError ''File name too long'' []) else None),
        path_glob = (\<lambda>root pattern. [])\<rparr>
       (replicate 300 CHR ''a'') \<and>
   FileSystemConnector_extract_metadata ascii_lower
     \<lparr>path_present = (\<lambda>p. False),
      stat_error = (\<lambda>p. if 255 < length p
                          then Some (Raised OSError ''File name too long'' []) else None),
      path_glob = (\<lambda>root pattern. [])\<rparr>
     \<lparr>purview_client = PurviewClient, collection_name = ''default'',
      qualified_name_prefix = ''filesystemconnector://'',
      root_path = replicate 300 CHR ''a'', file_extensions = None, recursive = True\<rparr> =
   Inl (Raised OSError ''File name too long'' [])"
  by (simp add: FileSystemConnector_extract_metadata_def Path_exists_def)

end
